theory Spec2Isabelle
  imports Complex_Main
begin

section \<open>The GPT chat-completion client of models/gpt\_model.py\<close>

text \<open>
  The development embeds the class \<open>GPTModel\<close>: its constructor, the buffered
  operation \<open>generate\<close> and the streaming operation \<open>generate_stream\<close>.
  Python values, the exceptions that can reach the caller and the string operations the
  methods use are modelled first. The HTTP exchange (\<open>session.post\<close>) and the JSON
  parser (\<open>json.loads\<close>) belong to libraries; they are parameters of the operations.
\<close>

subsection \<open>Python values\<close>

text \<open>
  A \<open>str\<close> is a list of Unicode code points, a \<open>bytes\<close> object a list of 8-bit
  characters. \<open>ascii\<close> writes a \<open>str\<close> literal from its ASCII characters.
\<close>

type_synonym pystr = "nat list"
type_synonym bytes = "char list"

definition ascii :: "string \<Rightarrow> pystr" where
  "ascii s = map of_char s"

datatype pyfloat = Finite rat | PosInf | NegInf | NaN

text \<open>The objects \<open>json.loads\<close> can return; a \<open>dict\<close> is an association list.\<close>

datatype pyval =
    PNone
  | PBool bool
  | PInt int
  | PFloat pyfloat
  | PStr pystr
  | PList "pyval list"
  | PDict "(pystr \<times> pyval) list"

text \<open>
  The exception classes that can leave the methods. \<open>ValueError\<close> and \<open>Exception\<close>
  are constructed by the source's own \<open>raise\<close> statements and carry their message;
  the others are raised by the interpreter's lookups, by \<open>bytes.decode\<close>, by
  \<open>json.loads\<close>, or inside the HTTP library (\<open>LibraryError\<close>, with the class name).
\<close>

datatype exn =
    ValueError pystr
  | Exception pystr
  | KeyError pyval
  | IndexError
  | TypeError
  | AttributeError
  | JSONDecodeError
  | UnicodeDecodeError
  | LibraryError pystr

definition bind :: "exn + 'a \<Rightarrow> ('a \<Rightarrow> exn + 'b) \<Rightarrow> exn + 'b" where
  "bind r f = (case r of Inl e \<Rightarrow> Inl e | Inr v \<Rightarrow> f v)"

text \<open>Truth value testing (\<open>if content:\<close>, \<open>if not self.api_key:\<close>).\<close>

fun truthy :: "pyval \<Rightarrow> bool" where
  "truthy PNone = False"
| "truthy (PBool b) = b"
| "truthy (PInt i) = (i \<noteq> 0)"
| "truthy (PFloat f) = (f \<noteq> Finite 0)"
| "truthy (PStr s) = (s \<noteq> [])"
| "truthy (PList xs) = (xs \<noteq> [])"
| "truthy (PDict kv) = (kv \<noteq> [])"

text \<open>\<open>obj.get(key, default)\<close>: only a \<open>dict\<close> has the attribute \<open>get\<close>.\<close>

fun py_get :: "pyval \<Rightarrow> pystr \<Rightarrow> pyval \<Rightarrow> exn + pyval" where
  "py_get (PDict kv) k d = Inr (case map_of kv k of Some v \<Rightarrow> v | None \<Rightarrow> d)"
| "py_get _ k d = Inl AttributeError"

text \<open>\<open>obj[key]\<close> for a \<open>str\<close> key.\<close>

fun py_getitem_key :: "pyval \<Rightarrow> pystr \<Rightarrow> exn + pyval" where
  "py_getitem_key (PDict kv) k =
     (case map_of kv k of Some v \<Rightarrow> Inr v | None \<Rightarrow> Inl (KeyError (PStr k)))"
| "py_getitem_key _ k = Inl TypeError"

text \<open>\<open>obj[0]\<close>. The keys of a parsed JSON object are strings, so \<open>0\<close> is never one.\<close>

fun py_getitem_0 :: "pyval \<Rightarrow> exn + pyval" where
  "py_getitem_0 (PList []) = Inl IndexError"
| "py_getitem_0 (PList (x # xs)) = Inr x"
| "py_getitem_0 (PStr []) = Inl IndexError"
| "py_getitem_0 (PStr (c # cs)) = Inr (PStr [c])"
| "py_getitem_0 (PDict kv) = Inl (KeyError (PInt 0))"
| "py_getitem_0 _ = Inl TypeError"

subsection \<open>Strings and bytes\<close>

text \<open>\<open>bytes.decode('utf-8')\<close> with strict error handling.\<close>

definition is_cont :: "nat \<Rightarrow> bool" where
  "is_cont b = (0x80 \<le> b \<and> b \<le> 0xBF)"

fun utf8_decode :: "nat list \<Rightarrow> pystr option" where
  "utf8_decode [] = Some []"
| "utf8_decode (b # bs) =
     (if b < 0x80 then map_option ((#) b) (utf8_decode bs)
      else if 0xC2 \<le> b \<and> b \<le> 0xDF then
        (case bs of
           c1 # r \<Rightarrow>
             if is_cont c1
             then map_option ((#) ((b - 0xC0) * 0x40 + (c1 - 0x80))) (utf8_decode r)
             else None
         | _ \<Rightarrow> None)
      else if 0xE0 \<le> b \<and> b \<le> 0xEF then
        (case bs of
           c1 # c2 # r \<Rightarrow>
             if (if b = 0xE0 then 0xA0 else 0x80) \<le> c1
                \<and> c1 \<le> (if b = 0xED then 0x9F else 0xBF) \<and> is_cont c2
             then map_option
                    ((#) ((b - 0xE0) * 0x1000 + (c1 - 0x80) * 0x40 + (c2 - 0x80)))
                    (utf8_decode r)
             else None
         | _ \<Rightarrow> None)
      else if 0xF0 \<le> b \<and> b \<le> 0xF4 then
        (case bs of
           c1 # c2 # c3 # r \<Rightarrow>
             if (if b = 0xF0 then 0x90 else 0x80) \<le> c1
                \<and> c1 \<le> (if b = 0xF4 then 0x8F else 0xBF) \<and> is_cont c2 \<and> is_cont c3
             then map_option
                    ((#) ((b - 0xF0) * 0x40000 + (c1 - 0x80) * 0x1000
                          + (c2 - 0x80) * 0x40 + (c3 - 0x80)))
                    (utf8_decode r)
             else None
         | _ \<Rightarrow> None)
      else None)"

definition decode_utf8 :: "bytes \<Rightarrow> exn + pystr" where
  "decode_utf8 raw =
     (case utf8_decode (map of_char raw) of
        None \<Rightarrow> Inl UnicodeDecodeError
      | Some s \<Rightarrow> Inr s)"

text \<open>\<open>str.isspace\<close> on one code point, and \<open>str.strip()\<close>.\<close>

definition isspace :: "nat \<Rightarrow> bool" where
  "isspace c =
     ((0x09 \<le> c \<and> c \<le> 0x0D) \<or> (0x1C \<le> c \<and> c \<le> 0x20) \<or> c = 0x85 \<or> c = 0xA0
      \<or> c = 0x1680 \<or> (0x2000 \<le> c \<and> c \<le> 0x200A) \<or> c = 0x2028 \<or> c = 0x2029
      \<or> c = 0x202F \<or> c = 0x205F \<or> c = 0x3000)"

definition strip :: "pystr \<Rightarrow> pystr" where
  "strip s = rev (dropWhile isspace (rev (dropWhile isspace s)))"

definition startswith :: "pystr \<Rightarrow> pystr \<Rightarrow> bool" where
  "startswith s p = (take (length p) s = p)"

text \<open>\<open>str(n)\<close> of an \<open>int\<close>, as an f-string formats \<open>response.status\<close>.\<close>

fun str_nat :: "nat \<Rightarrow> pystr" where
  "str_nat n = (if n < 10 then [48 + n] else str_nat (n div 10) @ [48 + n mod 10])"

declare str_nat.simps [simp del]

definition str_int :: "int \<Rightarrow> pystr" where
  "str_int i = (if i < 0 then 45 # str_nat (nat (- i)) else str_nat (nat i))"

subsection \<open>Construction\<close>

text \<open>
  What the constructor reads: \<open>config_manager.get_api_key('gpt')\<close>,
  \<open>config_manager.get_model_name('gpt')\<close>, and the attribute \<open>self.proxy\<close> that the
  base class initialiser (not part of the sources) leaves on the object: \<open>None\<close> or a
  dictionary of proxy URLs by scheme.
\<close>

record config_manager =
  gpt_api_key :: "pystr option"
  gpt_model_name :: "pystr option"
  proxy_settings :: "(pystr \<times> pystr) list option"

record gpt_model =
  api_key :: pystr
  model_name :: pystr
  api_url :: pystr
  proxy :: "(pystr \<times> pystr) list option"

definition key_missing_message :: pystr where
  "key_missing_message = ascii ''OpenAI API'' @ [0x5BC6, 0x94A5, 0x672A, 0x914D, 0x7F6E]"

definition default_model_name :: pystr where
  "default_model_name = ascii ''gpt-4-turbo''"

definition init :: "config_manager \<Rightarrow> exn + gpt_model" where
  "init cm =
     (case gpt_api_key cm of
        None \<Rightarrow> Inl (ValueError key_missing_message)
      | Some k \<Rightarrow>
          if k = [] then Inl (ValueError key_missing_message)
          else Inr \<lparr> api_key = k,
                     model_name =
                       (case gpt_model_name cm of
                          None \<Rightarrow> default_model_name
                        | Some m \<Rightarrow> if m = [] then default_model_name else m),
                     api_url = ascii ''https://api.openai.com/v1/chat/completions'',
                     proxy = proxy_settings cm \<rparr>)"

subsection \<open>The HTTP exchange\<close>

text \<open>
  A request as \<open>session.post\<close> receives it, and what the methods read of a response:
  \<open>response.status\<close>, the result of \<open>await response.text()\<close> and of
  \<open>await response.json()\<close> (both can raise inside the library), and the lines that
  \<open>async for line in response.content\<close> delivers, each with its newline. The fields
  are \<open>resp_text\<close>, \<open>resp_json\<close> and \<open>resp_content\<close>. A body is a finite list of
  lines: the properties below are about the lines up to the sentinel or the end of the
  body.
\<close>

record request =
  url :: pystr
  headers :: "(pystr \<times> pystr) list"
  json_data :: pyval
  proxy_url :: "pystr option"

record response =
  status :: int
  resp_text :: "exn + pystr"
  resp_json :: "exn + pyval"
  resp_content :: "bytes list"

text \<open>\<open>self.proxy["https"] if self.proxy else None\<close>\<close>

definition proxy_arg :: "gpt_model \<Rightarrow> exn + pystr option" where
  "proxy_arg self =
     (case proxy self of
        None \<Rightarrow> Inr None
      | Some d \<Rightarrow>
          if d = [] then Inr None
          else (case map_of d (ascii ''https'') of
                  None \<Rightarrow> Inl (KeyError (PStr (ascii ''https'')))
                | Some u \<Rightarrow> Inr (Some u)))"

text \<open>
  Both methods build the same headers and body (lines 39--56 and 76--93) and differ in
  the \<open>stream\<close> flag only. \<open>post\<close> is the network: it answers a request with a response
  or raises a transport error.
\<close>

definition build_request :: "gpt_model \<Rightarrow> pystr \<Rightarrow> bool \<Rightarrow> pystr option \<Rightarrow> request" where
  "build_request self prompt stream px =
     \<lparr> url = api_url self,
       headers = [(ascii ''Content-Type'', ascii ''application/json''),
                  (ascii ''Authorization'', ascii ''Bearer '' @ api_key self)],
       json_data = PDict [(ascii ''model'', PStr (model_name self)),
                          (ascii ''messages'',
                             PList [PDict [(ascii ''role'', PStr (ascii ''user'')),
                                           (ascii ''content'', PStr prompt)]]),
                          (ascii ''stream'', PBool stream)],
       proxy_url = px \<rparr>"

definition post_request ::
  "gpt_model \<Rightarrow> (request \<Rightarrow> exn + response) \<Rightarrow> pystr \<Rightarrow> bool \<Rightarrow> exn + response" where
  "post_request self post prompt stream =
     bind (proxy_arg self) (\<lambda>px. post (build_request self prompt stream px))"

definition status_error_message :: "int \<Rightarrow> pystr \<Rightarrow> pystr" where
  "status_error_message st error_text =
     ascii ''OpenAI API'' @ [0x9519, 0x8BEF] @ ascii '': '' @ str_int st
       @ ascii '' - '' @ error_text"

subsection \<open>generate\<close>

text \<open>\<open>result["choices"][0]["message"]["content"]\<close>\<close>

definition message_content :: "pyval \<Rightarrow> exn + pyval" where
  "message_content result =
     bind (py_getitem_key result (ascii ''choices'')) (\<lambda>choices.
     bind (py_getitem_0 choices) (\<lambda>choice.
     bind (py_getitem_key choice (ascii ''message'')) (\<lambda>message.
     py_getitem_key message (ascii ''content''))))"

definition generate ::
  "gpt_model \<Rightarrow> (request \<Rightarrow> exn + response) \<Rightarrow> pystr \<Rightarrow> 'cb \<Rightarrow> exn + pyval" where
  "generate self post prompt callback =
     (case post_request self post prompt False of
        Inl e \<Rightarrow> Inl e
      | Inr response \<Rightarrow>
          if status response \<noteq> 200 then
            (case resp_text response of
               Inl e \<Rightarrow> Inl e
             | Inr error_text \<Rightarrow>
                 Inl (Exception (status_error_message (status response) error_text)))
          else bind (resp_json response) message_content)"

subsection \<open>generate\_stream\<close>

text \<open>
  The body of the loop, for one line: what it does to the generator. The \<open>try\<close> block
  holds the parse and the lookups; its handler catches \<open>json.JSONDecodeError\<close> only.
\<close>

datatype action = Break | Continue | Yield pyval | Raise exn

definition delta_content :: "pyval \<Rightarrow> exn + pyval" where
  "delta_content data =
     bind (py_get data (ascii ''choices'') (PList [PDict []])) (\<lambda>choices.
     bind (py_getitem_0 choices) (\<lambda>choice.
     bind (py_get choice (ascii ''delta'') (PDict [])) (\<lambda>delta.
     py_get delta (ascii ''content'') (PStr []))))"

definition stream_step :: "(pystr \<Rightarrow> exn + pyval) \<Rightarrow> bytes \<Rightarrow> action" where
  "stream_step loads raw =
     (case decode_utf8 raw of
        Inl e \<Rightarrow> Raise e
      | Inr s \<Rightarrow>
          let line = strip s in
          if line = ascii ''data: [DONE]'' then Break
          else if startswith line (ascii ''data: '') then
            (case bind (loads (drop 6 line)) delta_content of
               Inl e \<Rightarrow> if e = JSONDecodeError then Continue else Raise e
             | Inr content \<Rightarrow> if truthy content then Yield content else Continue)
          else Continue)"

text \<open>
  The generator's run over the lines: the fragments it yields, in order, and how it
  ends (\<open>None\<close>: it finishes; \<open>Some e\<close>: it raises \<open>e\<close> after the fragments).
\<close>

fun stream_loop :: "(pystr \<Rightarrow> exn + pyval) \<Rightarrow> bytes list \<Rightarrow> pyval list \<times> exn option" where
  "stream_loop loads [] = ([], None)"
| "stream_loop loads (raw # rest) =
     (case stream_step loads raw of
        Break \<Rightarrow> ([], None)
      | Raise e \<Rightarrow> ([], Some e)
      | Continue \<Rightarrow> stream_loop loads rest
      | Yield c \<Rightarrow> (c # fst (stream_loop loads rest), snd (stream_loop loads rest)))"

definition generate_stream ::
  "gpt_model \<Rightarrow> (request \<Rightarrow> exn + response) \<Rightarrow> (pystr \<Rightarrow> exn + pyval) \<Rightarrow> pystr \<Rightarrow> 'cb
     \<Rightarrow> pyval list \<times> exn option" where
  "generate_stream self post loads prompt callback =
     (case post_request self post prompt True of
        Inl e \<Rightarrow> ([], Some e)
      | Inr response \<Rightarrow>
          if status response \<noteq> 200 then
            (case resp_text response of
               Inl e \<Rightarrow> ([], Some e)
             | Inr error_text \<Rightarrow>
                 ([], Some (Exception (status_error_message (status response) error_text))))
          else stream_loop loads (resp_content response))"

section \<open>Vocabulary of the properties\<close>

subsection \<open>Well-formed envelopes\<close>

text \<open>
  The wire format nests the text of the first completion as
  \<open>{"choices": [{field: {"content": ...}}]}\<close>, where \<open>field\<close> is \<open>message\<close> in a
  buffered envelope and \<open>delta\<close> in a streamed chunk. \<open>first_choice_content\<close> is the
  value at that place, if the object has it.
\<close>

definition first_choice_content :: "pystr \<Rightarrow> pyval \<Rightarrow> pyval option" where
  "first_choice_content field result =
     (case result of
        PDict kv \<Rightarrow>
          (case map_of kv (ascii ''choices'') of
             Some (PList (PDict ch # _)) \<Rightarrow>
               (case map_of ch field of
                  Some (PDict m) \<Rightarrow> map_of m (ascii ''content'')
                | _ \<Rightarrow> None)
           | _ \<Rightarrow> None)
      | _ \<Rightarrow> None)"

definition envelope_content :: "pyval \<Rightarrow> pyval option" where
  "envelope_content result = first_choice_content (ascii ''message'') result"

subsection \<open>Lines of a streamed body\<close>

text \<open>
  The kinds of line the properties speak of, each read off the raw line as the loop reads
  it (decoded, then stripped): the sentinel; a well-formed \<open>data: {...}\<close> line whose
  payload parses to a chunk with the non-empty string \<open>c\<close> as the content of the first
  delta; a \<open>data: \<close> line other than the sentinel whose payload the parser rejects as
  not being JSON; a \<open>data: \<close> line whose payload parses to a chunk without text (the
  object lacks \<open>choices\<close>, the first choice lacks \<open>delta\<close>, or the delta lacks
  \<open>content\<close> or has the empty string or \<open>null\<close> there); and a line that does not start
  with \<open>data: \<close> (a blank line between events, a comment, another field).
  \<open>tagged_line\<close> pairs a line with the tag of its kind.
\<close>

definition done_line :: "bytes \<Rightarrow> bool" where
  "done_line raw =
     (case decode_utf8 raw of
        Inr s \<Rightarrow> strip s = ascii ''data: [DONE]''
      | Inl e \<Rightarrow> False)"

definition delta_line :: "(pystr \<Rightarrow> exn + pyval) \<Rightarrow> bytes \<Rightarrow> pystr \<Rightarrow> bool" where
  "delta_line loads raw c =
     (case decode_utf8 raw of
        Inr s \<Rightarrow>
          startswith (strip s) (ascii ''data: {'')
          \<and> (case loads (drop 6 (strip s)) of
               Inr data \<Rightarrow> first_choice_content (ascii ''delta'') data = Some (PStr c) \<and> c \<noteq> []
             | Inl e \<Rightarrow> False)
      | Inl e \<Rightarrow> False)"

definition noise_line :: "(pystr \<Rightarrow> exn + pyval) \<Rightarrow> bytes \<Rightarrow> bool" where
  "noise_line loads raw =
     (case decode_utf8 raw of
        Inr s \<Rightarrow>
          startswith (strip s) (ascii ''data: '') \<and> strip s \<noteq> ascii ''data: [DONE]''
          \<and> loads (drop 6 (strip s)) = Inl JSONDecodeError
      | Inl e \<Rightarrow> False)"

definition empty_delta :: "pyval \<Rightarrow> bool" where
  "empty_delta data =
     (case data of
        PDict kv \<Rightarrow>
          (case map_of kv (ascii ''choices'') of
             None \<Rightarrow> True
           | Some (PList (PDict ch # _)) \<Rightarrow>
               (case map_of ch (ascii ''delta'') of
                  None \<Rightarrow> True
                | Some (PDict d) \<Rightarrow>
                    (case map_of d (ascii ''content'') of
                       None \<Rightarrow> True
                     | Some v \<Rightarrow> v = PStr [] \<or> v = PNone)
                | Some _ \<Rightarrow> False)
           | Some _ \<Rightarrow> False)
      | _ \<Rightarrow> False)"

definition empty_line :: "(pystr \<Rightarrow> exn + pyval) \<Rightarrow> bytes \<Rightarrow> bool" where
  "empty_line loads raw =
     (case decode_utf8 raw of
        Inr s \<Rightarrow>
          startswith (strip s) (ascii ''data: '') \<and> strip s \<noteq> ascii ''data: [DONE]''
          \<and> (case loads (drop 6 (strip s)) of
               Inr data \<Rightarrow> empty_delta data
             | Inl e \<Rightarrow> False)
      | Inl e \<Rightarrow> False)"

definition other_line :: "bytes \<Rightarrow> bool" where
  "other_line raw =
     (case decode_utf8 raw of
        Inr s \<Rightarrow> \<not> startswith (strip s) (ascii ''data: '')
      | Inl e \<Rightarrow> False)"



subsection \<open>Line buffering\<close>

text \<open>
  Modelled from the spec: the line buffering behind \<open>async for line in response.content\<close>.
  It is done by the stream reader of the HTTP library, which is not part of the sources;
  the method only iterates over the lines it delivers. The spec asks that "a logical line
  split across two network reads must be reassembled before the prefix check is applied".
  The reader keeps the bytes of the unfinished line; every chunk the network delivers is
  fed to it byte by byte, a newline completes a line (the newline stays on the line), and
  what is pending when the body ends is delivered as the last line.
\<close>

definition feed_byte :: "char \<Rightarrow> bytes \<times> bytes list \<Rightarrow> bytes \<times> bytes list" where
  "feed_byte b st =
     (case st of (pending, delivered) \<Rightarrow>
        if b = CHR 0x0A then ([], delivered @ [pending @ [b]])
        else (pending @ [b], delivered))"

definition feed_data :: "bytes \<Rightarrow> bytes \<times> bytes list \<Rightarrow> bytes \<times> bytes list" where
  "feed_data chunk st = fold feed_byte chunk st"

definition iter_lines :: "bytes list \<Rightarrow> bytes list" where
  "iter_lines chunks =
     (case fold feed_data chunks ([], []) of (pending, delivered) \<Rightarrow>
        delivered @ (if pending = [] then [] else [pending]))"

subsection \<open>Errors\<close>

text \<open>
  The exceptions of a failed subscript: \<open>KeyError\<close> (no such key), \<open>IndexError\<close>
  (no first element), \<open>TypeError\<close> (the object cannot be indexed that way).
\<close>

definition lookup_error :: "exn \<Rightarrow> bool" where
  "lookup_error e =
     (case e of KeyError k \<Rightarrow> True | IndexError \<Rightarrow> True | TypeError \<Rightarrow> True | _ \<Rightarrow> False)"

text \<open>
  The source declares no exception class. Its \<open>raise\<close> statements construct a
  \<open>ValueError\<close> (line 22) and an \<open>Exception\<close> (lines 59 and 96), each with a message
  that says what failed; an exception of any other class reaches the caller from an
  interpreter operation or a library call, neither caught nor wrapped by the client.
\<close>

definition raised_by_client :: "exn \<Rightarrow> bool" where
  "raised_by_client e = (case e of ValueError m \<Rightarrow> True | Exception m \<Rightarrow> True | _ \<Rightarrow> False)"

subsection \<open>Sample objects\<close>

text \<open>A configured client, and the network that answers every request with \<open>r\<close>.\<close>

definition sample_model :: gpt_model where
  "sample_model =
     \<lparr> api_key = ascii ''sk-test'', model_name = ascii ''gpt-4-turbo'',
       api_url = ascii ''https://api.openai.com/v1/chat/completions'', proxy = None \<rparr>"

definition answers :: "response \<Rightarrow> request \<Rightarrow> exn + response" where
  "answers r req = Inr r"

definition sample_envelope :: pyval where
  "sample_envelope =
     PDict [(ascii ''id'', PStr (ascii ''chatcmpl-1'')),
            (ascii ''choices'',
               PList [PDict [(ascii ''index'', PInt 0),
                             (ascii ''message'',
                                PDict [(ascii ''role'', PStr (ascii ''assistant'')),
                                       (ascii ''content'', PStr (ascii ''Hello!''))])]])]"

definition ok_response :: "pyval \<Rightarrow> response" where
  "ok_response result =
     \<lparr> status = 200, resp_text = Inr [], resp_json = Inr result, resp_content = [] \<rparr>"

definition rate_limited :: response where
  "rate_limited =
     \<lparr> status = 429, resp_text = Inr (ascii ''slow down''), resp_json = Inl JSONDecodeError,
       resp_content = [] \<rparr>"

text \<open>
  Lines of a streamed body, and what \<open>json.loads\<close> returns on the payloads they carry
  (the payload of \<open>sample_noise\<close> is cut off and is not JSON).
\<close>

definition delta_chunk :: "pystr \<Rightarrow> pyval" where
  "delta_chunk c =
     PDict [(ascii ''choices'',
               PList [PDict [(ascii ''delta'', PDict [(ascii ''content'', PStr c)])]])]"

definition sample_line_1 :: bytes where
  \<open>sample_line_1 = ''data: {"choices":[{"delta":{"content":"Hel"}}]}'' @ [CHR 0x0A]\<close>

definition sample_line_2 :: bytes where
  \<open>sample_line_2 = ''data: {"choices":[{"delta":{"content":"lo"}}]}'' @ [CHR 0x0A]\<close>

definition sample_done :: bytes where
  "sample_done = ''data: [DONE]'' @ [CHR 0x0A]"

definition sample_noise :: bytes where
  \<open>sample_noise = ''data: {"choices":[{"del'' @ [CHR 0x0A]\<close>

definition sample_blank :: bytes where
  "sample_blank = [CHR 0x0A]"

definition sample_role :: bytes where
  \<open>sample_role =
     ''data: {"choices":[{"delta":{"role":"assistant","content":""}}]}'' @ [CHR 0x0A]\<close>

definition sample_empty_choices :: bytes where
  \<open>sample_empty_choices = ''data: {"choices": []}'' @ [CHR 0x0A]\<close>

definition sample_loads :: "pystr \<Rightarrow> exn + pyval" where
  \<open>sample_loads s =
     (if s = ascii ''{"choices":[{"delta":{"content":"Hel"}}]}'' then Inr (delta_chunk (ascii ''Hel''))
      else if s = ascii ''{"choices":[{"delta":{"content":"lo"}}]}'' then Inr (delta_chunk (ascii ''lo''))
      else if s = ascii ''{"choices":[{"delta":{"role":"assistant","content":""}}]}''
      then Inr (PDict [(ascii ''choices'',
                          PList [PDict [(ascii ''delta'',
                                           PDict [(ascii ''role'', PStr (ascii ''assistant'')),
                                                  (ascii ''content'', PStr [])])]])])
      else if s = ascii ''{"choices": []}'' then Inr (PDict [(ascii ''choices'', PList [])])
      else Inl JSONDecodeError)\<close>

text \<open>
  Two responses whose body is not text in its character set: reading it raises
  \<open>UnicodeDecodeError\<close> inside \<open>response.text()\<close> and \<open>response.json()\<close>.
\<close>

definition undecodable :: "int \<Rightarrow> response" where
  "undecodable st =
     \<lparr> status = st, resp_text = Inl UnicodeDecodeError, resp_json = Inl UnicodeDecodeError,
       resp_content = [] \<rparr>"

definition stream_response :: "bytes list \<Rightarrow> response" where
  "stream_response ls =
     \<lparr> status = 200, resp_text = Inr [], resp_json = Inl JSONDecodeError, resp_content = ls \<rparr>"

section \<open>Properties\<close>

subsection \<open>The string operations on examples\<close>

lemma decode_utf8_examples:
  "decode_utf8 [CHR 0xC3, CHR 0xA9] = Inr [0xE9]"
  "decode_utf8 [CHR 0xE2, CHR 0x82, CHR 0xAC] = Inr [0x20AC]"
  "decode_utf8 [CHR 0xF0, CHR 0x9F, CHR 0x98, CHR 0x80] = Inr [0x1F600]"
  "decode_utf8 [CHR 0xE9, CHR 0x94, CHR 0x99] = Inr [0x9519]"
  "decode_utf8 [CHR 0xC0, CHR 0x80] = Inl UnicodeDecodeError"
  "decode_utf8 [CHR 0xED, CHR 0xA0, CHR 0x80] = Inl UnicodeDecodeError"
  "decode_utf8 [CHR 0xF4, CHR 0x90, CHR 0x80, CHR 0x80] = Inl UnicodeDecodeError"
  "decode_utf8 [CHR 0xE2, CHR 0x82] = Inl UnicodeDecodeError"
  "decode_utf8 [CHR 0x80] = Inl UnicodeDecodeError"
  by (simp_all add: decode_utf8_def is_cont_def)

lemma strip_examples:
  "strip (ascii ''  data: x '' @ [13, 10]) = ascii ''data: x''"
  "strip [0x3000, 0x61, 0xA0, 0x62, 0x1F, 0x85] = [0x61, 0xA0, 0x62]"
  "strip (ascii ''   '') = []"
  by (simp_all add: strip_def isspace_def ascii_def)

subsection \<open>Lookups in the buffered envelope\<close>

lemma sample_model_posts: "post_request sample_model (answers r) prompt stream = Inr r"
  by (simp add: post_request_def proxy_arg_def bind_def sample_model_def answers_def)

lemma message_content_on_envelope:
  "envelope_content result = Some v \<Longrightarrow> message_content result = Inr v"
  by (auto simp: message_content_def bind_def envelope_content_def first_choice_content_def
           split: pyval.splits option.splits list.splits)

lemma py_getitem_key_error: "py_getitem_key v k = Inl e \<Longrightarrow> lookup_error e"
  by (cases v) (auto simp: lookup_error_def split: option.splits)

lemma py_getitem_0_error: "py_getitem_0 v = Inl e \<Longrightarrow> lookup_error e"
  by (erule py_getitem_0.elims) (auto simp: lookup_error_def)

lemma py_getitem_key_value:
  "py_getitem_key v k = Inr x \<Longrightarrow> \<exists>kv. v = PDict kv \<and> map_of kv k = Some x"
  by (cases v) (auto split: option.splits)

lemma py_getitem_0_value:
  "py_getitem_0 v = Inr x \<Longrightarrow> (\<exists>xs. v = PList (x # xs)) \<or> (\<exists>c cs. v = PStr (c # cs) \<and> x = PStr [c])"
  by (erule py_getitem_0.elims) auto

lemma message_content_error: "message_content result = Inl e \<Longrightarrow> lookup_error e"
  by (auto simp: message_content_def bind_def split: sum.splits
           dest: py_getitem_key_error py_getitem_0_error)

lemma message_content_value:
  assumes "message_content result = Inr v"
  shows "envelope_content result = Some v"
proof -
  from assms obtain choices choice message where
    c: "py_getitem_key result (ascii ''choices'') = Inr choices"
    and c0: "py_getitem_0 choices = Inr choice"
    and m: "py_getitem_key choice (ascii ''message'') = Inr message"
    and v: "py_getitem_key message (ascii ''content'') = Inr v"
    by (auto simp: message_content_def bind_def split: sum.splits)
  from c obtain kv where kv: "result = PDict kv" "map_of kv (ascii ''choices'') = Some choices"
    by (auto dest: py_getitem_key_value)
  from m obtain ch where ch: "choice = PDict ch" "map_of ch (ascii ''message'') = Some message"
    by (auto dest: py_getitem_key_value)
  from v obtain d where d: "message = PDict d" "map_of d (ascii ''content'') = Some v"
    by (auto dest: py_getitem_key_value)
  from c0 ch obtain xs where xs: "choices = PList (PDict ch # xs)"
    by (auto dest: py_getitem_0_value)
  show ?thesis
    by (simp add: envelope_content_def first_choice_content_def kv ch d xs)
qed

lemma message_content_off_envelope:
  assumes "envelope_content result = None"
  shows "\<exists>e. message_content result = Inl e \<and> lookup_error e"
proof (cases "message_content result")
  case (Inl e)
  then show ?thesis by (auto dest: message_content_error)
next
  case (Inr v)
  with assms show ?thesis by (auto dest: message_content_value)
qed

subsection \<open>The message of the status error\<close>










lemma str_int_examples:
  "str_int 429 = ascii ''429''" "str_int (-7) = ascii ''-7''" "str_int 0 = ascii ''0''"
  by (simp_all add: str_int_def str_nat.simps ascii_def)



subsection \<open>Construction and the buffered path\<close>

text \<open>
  C6. Construction with a missing (\<open>None\<close>) or empty API key fails with the
  constructor's configuration error, the \<open>ValueError\<close> of line 22. The constructor
  takes no network; a caller that constructs and then generates gets that error whatever
  the network \<open>post\<close> would do. A client that was constructed holds the configured key,
  which is not empty: no key is substituted.
\<close>

theorem init_requires_api_key:
  "(gpt_api_key cm = None \<or> gpt_api_key cm = Some [] \<longrightarrow>
      init cm = Inl (ValueError key_missing_message)
      \<and> bind (init cm) (\<lambda>self. generate self post prompt cb)
          = Inl (ValueError key_missing_message))
   \<and> (init cm = Inr self \<longrightarrow> gpt_api_key cm = Some (api_key self) \<and> api_key self \<noteq> [])"
  by (auto simp: init_def bind_def split: option.splits if_splits)

theorem init_requires_api_key_witness:
  "init \<lparr> gpt_api_key = None, gpt_model_name = Some (ascii ''gpt-4o''), proxy_settings = None \<rparr>
     = Inl (ValueError key_missing_message)
   \<and> init \<lparr> gpt_api_key = Some [], gpt_model_name = None, proxy_settings = None \<rparr>
     = Inl (ValueError key_missing_message)
   \<and> init \<lparr> gpt_api_key = Some (ascii ''sk-test''), gpt_model_name = None,
             proxy_settings = None \<rparr> = Inr sample_model"
  using init_requires_api_key
          [of "\<lparr> gpt_api_key = None, gpt_model_name = Some (ascii ''gpt-4o''),
                 proxy_settings = None \<rparr>"]
        init_requires_api_key
          [of "\<lparr> gpt_api_key = Some [], gpt_model_name = None, proxy_settings = None \<rparr>"]
        init_requires_api_key
          [of "\<lparr> gpt_api_key = Some (ascii ''sk-test''), gpt_model_name = None,
                 proxy_settings = None \<rparr>" _ _ _ sample_model]
  by (simp add: init_def sample_model_def default_model_name_def ascii_def)

text \<open>
  C7, as amended. On the buffered path, for every response with status 200 whose JSON
  envelope lacks the expected fields (\<open>choices\<close> with a first element, \<open>message\<close>,
  \<open>content\<close>), \<open>generate\<close> returns no value: it fails with the built-in exception of
  the failed subscript (\<open>KeyError\<close>, \<open>IndexError\<close> or \<open>TypeError\<close>), which the client
  neither catches nor wraps in an error of its own.
\<close>

theorem missing_fields_raise_lookup_error:
  "post_request self post prompt False = Inr response \<and> status response = 200
     \<and> resp_json response = Inr result \<and> envelope_content result = None
   \<longrightarrow> (\<exists>e. generate self post prompt cb = Inl e \<and> lookup_error e \<and> \<not> raised_by_client e)"
proof (intro impI, elim conjE)
  assume a: "post_request self post prompt False = Inr response" "status response = 200"
    "resp_json response = Inr result" "envelope_content result = None"
  from a(4) obtain e where e: "message_content result = Inl e" "lookup_error e"
    by (auto dest: message_content_off_envelope)
  from e(2) have "\<not> raised_by_client e"
    by (cases e) (simp_all add: lookup_error_def raised_by_client_def)
  with a e show "\<exists>e. generate self post prompt cb = Inl e \<and> lookup_error e \<and> \<not> raised_by_client e"
    by (simp add: generate_def bind_def)
qed

theorem missing_fields_raise_lookup_error_witness:
  "generate sample_model (answers (ok_response (PDict [(ascii ''choices'', PList [])])))
      (ascii ''hello'') () = Inl IndexError"
  using missing_fields_raise_lookup_error
          [of sample_model "answers (ok_response (PDict [(ascii ''choices'', PList [])]))"
              "ascii ''hello''" "ok_response (PDict [(ascii ''choices'', PList [])])"
              "PDict [(ascii ''choices'', PList [])]" "()"]
  by (simp add: post_request_def proxy_arg_def bind_def sample_model_def answers_def
        ok_response_def generate_def message_content_def ascii_def)

text \<open>
  C7 as stated fails: for the envelope \<open>{}\<close> with status 200 the caller gets the bare
  \<open>KeyError('choices')\<close> of the subscript, not an error the client classified.
\<close>

theorem missing_choices_not_classified:
  "generate sample_model (answers (ok_response (PDict []))) (ascii ''hello'') ()
     = Inl (KeyError (PStr (ascii ''choices'')))
   \<and> \<not> raised_by_client (KeyError (PStr (ascii ''choices'')))"
  by (simp add: post_request_def proxy_arg_def bind_def sample_model_def answers_def
        ok_response_def generate_def message_content_def raised_by_client_def)

text \<open>
  C9. For every prompt (the empty one included), when the response has status 200 and
  its JSON envelope is well formed with the string \<open>c\<close> as the content of the first
  completion's message, \<open>generate\<close> returns exactly \<open>c\<close>. When the configured model
  name is unset (\<open>None\<close> or empty), the constructed client's model name is the constant
  \<open>gpt-4-turbo\<close>, and that is the \<open>model\<close> of the request it posts.
\<close>

theorem generate_returns_message_content:
  "(post_request self post prompt False = Inr response \<and> status response = 200
      \<and> resp_json response = Inr result \<and> envelope_content result = Some (PStr c)
    \<longrightarrow> generate self post prompt cb = Inr (PStr c))
   \<and> (init cm = Inr self' \<and> (gpt_model_name cm = None \<or> gpt_model_name cm = Some [])
    \<longrightarrow> model_name self' = default_model_name
        \<and> py_getitem_key (json_data (build_request self' prompt stream px)) (ascii ''model'')
            = Inr (PStr default_model_name)
        \<and> post_request self' post prompt stream
            = bind (proxy_arg self') (\<lambda>px. post (build_request self' prompt stream px)))"
  by (auto simp: generate_def bind_def init_def build_request_def post_request_def
           dest: message_content_on_envelope split: option.splits if_splits)

theorem generate_returns_message_content_witness:
  "generate sample_model (answers (ok_response sample_envelope)) (ascii ''hello'') ()
     = Inr (PStr (ascii ''Hello!''))
   \<and> model_name sample_model = ascii ''gpt-4-turbo''"
  using generate_returns_message_content
          [of sample_model "answers (ok_response sample_envelope)" "ascii ''hello''"
              "ok_response sample_envelope" sample_envelope "ascii ''Hello!''" "()"
              "\<lparr> gpt_api_key = Some (ascii ''sk-test''), gpt_model_name = None,
                 proxy_settings = None \<rparr>" sample_model]
  by (simp add: post_request_def proxy_arg_def bind_def sample_model_def answers_def
        ok_response_def sample_envelope_def envelope_content_def first_choice_content_def
        init_def default_model_name_def ascii_def)


subsection \<open>The streaming loop\<close>

lemma delta_content_on_chunk:
  "first_choice_content (ascii ''delta'') data = Some v \<Longrightarrow> delta_content data = Inr v"
  by (auto simp: delta_content_def bind_def first_choice_content_def
           split: pyval.splits option.splits list.splits)

lemma startswith_brace:
  assumes "startswith s (ascii ''data: {'')"
  shows "startswith s (ascii ''data: '')" and "s \<noteq> ascii ''data: [DONE]''"
proof -
  have len: "length (ascii ''data: {'') = 7" by (simp add: ascii_def)
  have val: "ascii ''data: {'' = [100, 97, 116, 97, 58, 32, 123]" by (simp add: ascii_def)
  from assms have "take (length (ascii ''data: {'')) s = ascii ''data: {''"
    by (simp only: startswith_def)
  then have "take 7 s = ascii ''data: {''"
    by (simp only: len)
  then have t7: "take 7 s = [100, 97, 116, 97, 58, 32, 123]"
    by (simp only: val)
  have "take 6 s = take 6 (take 7 s)" by simp
  also have "\<dots> = [100, 97, 116, 97, 58, 32]" by (simp only: t7) simp
  finally have "take 6 s = [100, 97, 116, 97, 58, 32]" .
  moreover have "length (ascii ''data: '') = 6"
    by (simp add: ascii_def)
  moreover have "ascii ''data: '' = [100, 97, 116, 97, 58, 32]"
    by (simp add: ascii_def)
  ultimately show "startswith s (ascii ''data: '')"
    unfolding startswith_def by metis
  show "s \<noteq> ascii ''data: [DONE]''"
  proof
    assume "s = ascii ''data: [DONE]''"
    with t7 show False by (simp add: ascii_def)
  qed
qed

lemma stream_step_delta:
  assumes "delta_line loads raw c"
  shows "stream_step loads raw = Yield (PStr c)"
proof -
  from assms obtain s data where
    s: "decode_utf8 raw = Inr s" and p: "startswith (strip s) (ascii ''data: {'')"
    and d: "loads (drop 6 (strip s)) = Inr data"
    and c: "first_choice_content (ascii ''delta'') data = Some (PStr c)" "c \<noteq> []"
    by (auto simp: delta_line_def split: sum.splits)
  from c(1) have "delta_content data = Inr (PStr c)" by (rule delta_content_on_chunk)
  with s d c(2) startswith_brace [OF p] show ?thesis
    by (simp add: stream_step_def bind_def)
qed

lemma stream_step_done: "done_line raw \<Longrightarrow> stream_step loads raw = Break"
  by (auto simp: done_line_def stream_step_def split: sum.splits)


lemma stream_loop_deltas:
  "list_all2 (delta_line loads) raws cs \<Longrightarrow> done_line stop \<Longrightarrow>
   stream_loop loads (raws @ stop # rest) = (map PStr cs, None)"
proof (induction raws cs rule: list_all2_induct)
  case Nil
  then show ?case by (simp add: stream_step_done)
next
  case (Cons raw raws c cs)
  then show ?case by (simp add: stream_step_delta)
qed









lemma sample_lines:
  "delta_line sample_loads sample_line_1 (ascii ''Hel'')"
  "delta_line sample_loads sample_line_2 (ascii ''lo'')"
  "done_line sample_done"
  "noise_line sample_loads sample_noise"
  "empty_line sample_loads sample_role"
  "other_line sample_blank"
  by (simp_all add: delta_line_def done_line_def noise_line_def empty_line_def other_line_def
        empty_delta_def decode_utf8_def strip_def isspace_def startswith_def sample_loads_def
        sample_line_1_def sample_line_2_def sample_done_def sample_noise_def sample_role_def
        sample_blank_def delta_chunk_def first_choice_content_def ascii_def)

lemma sample_step_empty_choices: "stream_step sample_loads sample_empty_choices = Raise IndexError"
  by (simp add: stream_step_def decode_utf8_def strip_def isspace_def startswith_def
        sample_loads_def sample_empty_choices_def delta_content_def bind_def ascii_def)


lemma stream_step_yields_truthy: "stream_step loads raw = Yield v \<Longrightarrow> truthy v"
  by (simp add: stream_step_def Let_def split: sum.splits if_splits)

lemma stream_loop_yields_truthy: "c \<in> set (fst (stream_loop loads ls)) \<Longrightarrow> truthy c"
proof (induction ls)
  case Nil
  then show ?case by simp
next
  case (Cons raw ls)
  show ?case
  proof (cases "stream_step loads raw")
    case (Yield v)
    with Cons stream_step_yields_truthy [OF Yield] show ?thesis by auto
  qed (use Cons in simp_all)
qed

lemma delta_content_defaults:
  "map_of kv (ascii ''choices'') = None \<Longrightarrow> delta_content (PDict kv) = Inr (PStr [])"
  "map_of kv (ascii ''choices'') = Some (PList (PDict ch # xs)) \<Longrightarrow>
     map_of ch (ascii ''delta'') = None \<Longrightarrow> delta_content (PDict kv) = Inr (PStr [])"
  "map_of kv (ascii ''choices'') = Some (PList (PDict ch # xs)) \<Longrightarrow>
     map_of ch (ascii ''delta'') = Some (PDict d) \<Longrightarrow> map_of d (ascii ''content'') = None \<Longrightarrow>
     delta_content (PDict kv) = Inr (PStr [])"
  by (simp_all add: delta_content_def bind_def)

text \<open>
  C1. When the response has status 200 and its lines are \<open>N\<close> well-formed
  \<open>data: {...}\<close> lines, the \<open>i\<close>-th carrying the non-empty delta \<open>cs ! i\<close>, followed by
  a \<open>data: [DONE]\<close> line and then by any lines \<open>rest\<close> at all, \<open>generate_stream\<close> yields
  exactly the \<open>N\<close> fragments \<open>cs\<close>, in the order of the lines, and then finishes without
  raising: the sentinel ends the sequence and nothing after it is read.
\<close>

theorem stream_yields_deltas_until_done:
  "post_request self post prompt True = Inr response \<and> status response = 200
     \<and> resp_content response = raws @ stop # rest
     \<and> list_all2 (delta_line loads) raws cs \<and> done_line stop
   \<longrightarrow> generate_stream self post loads prompt cb = (map PStr cs, None)"
  by (simp add: generate_stream_def stream_loop_deltas)

theorem stream_yields_deltas_until_done_witness:
  "generate_stream sample_model
     (answers (stream_response [sample_line_1, sample_line_2, sample_done, sample_line_1]))
     sample_loads (ascii ''hello'') ()
   = ([PStr (ascii ''Hel''), PStr (ascii ''lo'')], None)"
  using stream_yields_deltas_until_done
          [of sample_model
              "answers (stream_response [sample_line_1, sample_line_2, sample_done, sample_line_1])"
              "ascii ''hello''"
              "stream_response [sample_line_1, sample_line_2, sample_done, sample_line_1]"
              "[sample_line_1, sample_line_2]" sample_done "[sample_line_1]" sample_loads
              "[ascii ''Hel'', ascii ''lo'']" "()"]
  by (simp add: sample_model_posts stream_response_def sample_lines)



subsection \<open>Chunks and lines\<close>

lemma feed_data_append: "feed_data (a @ b) st = feed_data b (feed_data a st)"
  by (simp add: feed_data_def)

lemma iter_lines_split:
  "iter_lines (pre @ [a @ b] @ suf) = iter_lines (pre @ [a, b] @ suf)"
  by (simp add: iter_lines_def feed_data_append)

lemma fold_feed_data_concat: "fold feed_data chunks st = feed_data (concat chunks) st"
  by (induction chunks arbitrary: st) (simp_all add: feed_data_def)

lemma iter_lines_whole: "iter_lines chunks = iter_lines [concat chunks]"
  by (simp add: iter_lines_def fold_feed_data_concat)

text \<open>
  C2. Two bodies that differ only in that one network read \<open>a @ b\<close> of the first arrives
  as the two reads \<open>a\<close> and \<open>b\<close> in the second, split at any byte offset (inside the
  \<open>data: \<close> prefix, inside the JSON payload, inside a character), are buffered into the
  same lines, so \<open>generate_stream\<close> yields the same fragments and ends the same way: no
  fragment is lost or duplicated.
\<close>

theorem split_line_is_reassembled:
  "post_request self post prompt True = Inr response \<and> status response = 200
     \<and> post_request self post' prompt True = Inr response' \<and> status response' = 200
     \<and> resp_content response = iter_lines (pre @ [a @ b] @ suf)
     \<and> resp_content response' = iter_lines (pre @ [a, b] @ suf)
   \<longrightarrow> generate_stream self post' loads prompt cb = generate_stream self post loads prompt cb"
  using iter_lines_split [of pre a b suf] by (auto simp: generate_stream_def)

lemma sample_iter_lines:
  "iter_lines [take 3 sample_line_1, drop 3 sample_line_1, sample_done]
   = [sample_line_1, sample_done]"
  "iter_lines [sample_line_1, sample_done] = [sample_line_1, sample_done]"
  by (simp_all add: iter_lines_def feed_data_def feed_byte_def sample_line_1_def sample_done_def)

theorem split_line_is_reassembled_witness:
  "generate_stream sample_model
     (answers (stream_response
        (iter_lines [take 3 sample_line_1, drop 3 sample_line_1, sample_done])))
     sample_loads (ascii ''hello'') ()
   = generate_stream sample_model
     (answers (stream_response (iter_lines [sample_line_1, sample_done])))
     sample_loads (ascii ''hello'') ()
   \<and> generate_stream sample_model
     (answers (stream_response (iter_lines [sample_line_1, sample_done])))
     sample_loads (ascii ''hello'') ()
   = ([PStr (ascii ''Hel'')], None)"
  using split_line_is_reassembled
          [of sample_model
              "answers (stream_response (iter_lines [sample_line_1, sample_done]))"
              "ascii ''hello''"
              "stream_response (iter_lines [sample_line_1, sample_done])"
              "answers (stream_response
                 (iter_lines [take 3 sample_line_1, drop 3 sample_line_1, sample_done]))"
              "stream_response
                 (iter_lines [take 3 sample_line_1, drop 3 sample_line_1, sample_done])"
              "[]" "take 3 sample_line_1" "drop 3 sample_line_1" "[sample_done]"
              sample_loads "()"]
  by (simp add: sample_model_posts stream_response_def sample_iter_lines generate_stream_def
        stream_step_delta [OF sample_lines(1)] stream_step_done [OF sample_lines(3)])

subsection \<open>A chunk without choices\<close>

text \<open>
  C4. The lookups of the loop give the defaults for an absent key
  (\<open>delta_content_defaults\<close>) and only a truthy content is yielded
  (\<open>stream_loop_yields_truthy\<close>), so an empty string never is. But a chunk with
  \<open>"choices": []\<close> parses, lacks the nested fields, and makes the generator raise: the
  subscript \<open>[0]\<close> of the empty list raises \<open>IndexError\<close>, which the handler for
  \<open>json.JSONDecodeError\<close> does not catch. The lines after it are never read.
\<close>

theorem empty_choices_crash:
  "generate_stream sample_model
     (answers (stream_response [sample_line_1, sample_empty_choices, sample_line_2, sample_done]))
     sample_loads (ascii ''hello'') ()
   = ([PStr (ascii ''Hel'')], Some IndexError)"
  by (simp add: generate_stream_def sample_model_posts stream_response_def
        stream_step_delta [OF sample_lines(1)] sample_step_empty_choices)

subsection \<open>Kinds of error\<close>

text \<open>
  C8, as amended. Of the four kinds of error the client raises two itself, and the
  caller can tell them by the class of the exception from each other and from the
  exceptions of a failed lookup in the envelope: construction fails with the
  \<open>ValueError\<close> of line 22 and with nothing else, and a response with a status other
  than 200 whose body text was read makes both methods raise the \<open>Exception\<close> of lines
  59 and 96. The client classifies nothing else. An exception raised while the request
  is posted, while the body of a response is read as text (status other than 200) or as
  JSON (status 200) reaches the caller of \<open>generate\<close> and \<open>generate_stream\<close> as it was
  raised, and a 200 envelope that lacks the expected fields gives the exception of the
  failed lookup.
\<close>

theorem client_raises_two_kinds_and_passes_on_the_rest:
  "(init cm = Inl e \<longrightarrow> e = ValueError key_missing_message)
   \<and> (post_request self post prompt False = Inl e \<longrightarrow> generate self post prompt cb = Inl e)
   \<and> (post_request self post prompt True = Inl e
      \<longrightarrow> generate_stream self post loads prompt cb = ([], Some e))
   \<and> (post_request self post prompt False = Inr response \<and> status response \<noteq> 200
      \<longrightarrow> (resp_text response = Inl e \<longrightarrow> generate self post prompt cb = Inl e)
        \<and> (resp_text response = Inr body
            \<longrightarrow> generate self post prompt cb
                  = Inl (Exception (status_error_message (status response) body))))
   \<and> (post_request self post prompt True = Inr response \<and> status response \<noteq> 200
      \<longrightarrow> (resp_text response = Inl e
            \<longrightarrow> generate_stream self post loads prompt cb = ([], Some e))
        \<and> (resp_text response = Inr body
            \<longrightarrow> generate_stream self post loads prompt cb
                  = ([], Some (Exception (status_error_message (status response) body)))))
   \<and> (post_request self post prompt False = Inr response \<and> status response = 200
      \<longrightarrow> (resp_json response = Inl e \<longrightarrow> generate self post prompt cb = Inl e)
        \<and> (resp_json response = Inr result \<and> envelope_content result = None
            \<longrightarrow> (\<exists>x. generate self post prompt cb = Inl x \<and> lookup_error x)))
   \<and> ValueError m \<noteq> Exception m'
   \<and> (lookup_error x \<longrightarrow> x \<noteq> ValueError m \<and> x \<noteq> Exception m')"
proof (intro conjI impI)
  assume "init cm = Inl e"
  then show "e = ValueError key_missing_message"
    by (auto simp: init_def split: option.splits if_splits)
next
  assume a: "post_request self post prompt False = Inr response \<and> status response = 200"
    and b: "resp_json response = Inr result \<and> envelope_content result = None"
  from b obtain x where "message_content result = Inl x" "lookup_error x"
    by (auto dest: message_content_off_envelope)
  with a b show "\<exists>x. generate self post prompt cb = Inl x \<and> lookup_error x"
    by (simp add: generate_def bind_def)
qed (auto simp: generate_def generate_stream_def bind_def lookup_error_def)

theorem client_raises_two_kinds_and_passes_on_the_rest_witness:
  "init \<lparr> gpt_api_key = None, gpt_model_name = None, proxy_settings = None \<rparr>
     = Inl (ValueError key_missing_message)
   \<and> generate sample_model (\<lambda>req. Inl (LibraryError (ascii ''ClientConnectorError'')))
        (ascii ''hello'') () = Inl (LibraryError (ascii ''ClientConnectorError''))
   \<and> generate_stream sample_model (\<lambda>req. Inl (LibraryError (ascii ''ClientConnectorError'')))
        sample_loads (ascii ''hello'') ()
      = ([], Some (LibraryError (ascii ''ClientConnectorError'')))
   \<and> generate sample_model (answers rate_limited) (ascii ''hello'') ()
     = Inl (Exception (status_error_message 429 (ascii ''slow down'')))
   \<and> generate_stream sample_model (answers (undecodable 500)) sample_loads (ascii ''hello'') ()
     = ([], Some UnicodeDecodeError)
   \<and> generate sample_model (answers (ok_response (PDict []))) (ascii ''hello'') ()
     = Inl (KeyError (PStr (ascii ''choices'')))"
  using client_raises_two_kinds_and_passes_on_the_rest
          [where cm = "\<lparr> gpt_api_key = None, gpt_model_name = None, proxy_settings = None \<rparr>"
             and e = "ValueError key_missing_message"]
        client_raises_two_kinds_and_passes_on_the_rest
          [where self = sample_model
             and post = "\<lambda>req. Inl (LibraryError (ascii ''ClientConnectorError''))"
             and prompt = "ascii ''hello''" and e = "LibraryError (ascii ''ClientConnectorError'')"
             and loads = sample_loads and cb = "()"]
        client_raises_two_kinds_and_passes_on_the_rest
          [where self = sample_model and post = "answers rate_limited"
             and prompt = "ascii ''hello''" and response = rate_limited
             and body = "ascii ''slow down''" and cb = "()"]
        client_raises_two_kinds_and_passes_on_the_rest
          [where self = sample_model and post = "answers (undecodable 500)"
             and prompt = "ascii ''hello''" and response = "undecodable 500"
             and e = UnicodeDecodeError and loads = sample_loads and cb = "()"]
        client_raises_two_kinds_and_passes_on_the_rest
          [where self = sample_model and post = "answers (ok_response (PDict []))"
             and prompt = "ascii ''hello''" and response = "ok_response (PDict [])"
             and result = "PDict []" and x = "KeyError (PStr (ascii ''choices''))" and cb = "()"]
  by (simp add: init_def generate_def post_request_def proxy_arg_def bind_def
        sample_model_def answers_def rate_limited_def ok_response_def undecodable_def
        message_content_def envelope_content_def first_choice_content_def lookup_error_def)

text \<open>
  C8 as stated fails: a response with status 500 and a response with status 200, each
  with a body that is not text in its character set, make \<open>generate\<close> raise the same
  exception, the \<open>UnicodeDecodeError\<close> of reading the body. The first failure is of the
  kind of a non-success status and the second of the kind of a success response that
  cannot be parsed, and the raised error alone does not tell which occurred.
\<close>

theorem same_exception_for_two_kinds:
  "status (undecodable 500) = 500
   \<and> generate sample_model (answers (undecodable 500)) (ascii ''hello'') ()
       = Inl UnicodeDecodeError
   \<and> status (undecodable 200) = 200
   \<and> generate sample_model (answers (undecodable 200)) (ascii ''hello'') ()
       = Inl UnicodeDecodeError"
  by (simp add: generate_def sample_model_posts undecodable_def bind_def)

subsection \<open>The callback argument\<close>

text \<open>
  C10. The results of \<open>generate\<close> and \<open>generate_stream\<close> do not depend on the
  \<open>callback\<close> argument: neither method ever calls or reads it, so two runs that differ
  in the callback only return the same value, yield the same fragments and raise the
  same error.
\<close>

theorem callback_independent:
  "generate self post prompt cb1 = generate self post prompt cb2
   \<and> generate_stream self post loads prompt cb1 = generate_stream self post loads prompt cb2"
  by (simp add: generate_def generate_stream_def)


end
